theory Spec2Isabelle
  imports Main "HOL-Library.Word" "HOL-Library.Finite_Map"
begin

section \<open>Identifiers\<close>

text \<open>
  The naming functions and the message factory take \<^verbatim>\<open>uuid.UUID\<close> values and
  interpolate them with \<^verbatim>\<open>str()\<close>. A UUID is a 128-bit integer; its string form is
  the 32 lower-case hexadecimal digits of that integer (\<^verbatim>\<open>'%032x' % self.int\<close>),
  grouped 8-4-4-4-12 with dashes.
\<close>

type_synonym uuid = "128 word"

definition hexdigit :: "nat \<Rightarrow> char" where
  "hexdigit d = ''0123456789abcdef'' ! d"

fun hex_digits :: "nat \<Rightarrow> nat \<Rightarrow> string" where
  "hex_digits 0 n = []"
| "hex_digits (Suc k) n = hex_digits k (n div 16) @ [hexdigit (n mod 16)]"

definition uuid_hex :: "uuid \<Rightarrow> string" where
  "uuid_hex u = hex_digits 32 (unat u)"

definition uuid_str :: "uuid \<Rightarrow> string" where
  "uuid_str u =
     (let h = uuid_hex u
      in take 8 h @ ''-'' @ take 4 (drop 8 h) @ ''-'' @ take 4 (drop 12 h) @ ''-''
         @ take 4 (drop 16 h) @ ''-'' @ drop 20 h)"


section \<open>Channel naming (channels.py, ChannelManager)\<close>

definition get_agent_task_channel :: "uuid \<Rightarrow> string" where
  "get_agent_task_channel agent_id = ''agent:'' @ uuid_str agent_id @ '':tasks''"

definition get_agent_status_channel :: "uuid \<Rightarrow> string" where
  "get_agent_status_channel agent_id = ''agent:'' @ uuid_str agent_id @ '':status''"

definition get_agent_heartbeat_channel :: "uuid \<Rightarrow> string" where
  "get_agent_heartbeat_channel agent_id = ''agent:'' @ uuid_str agent_id @ '':heartbeat''"

definition get_workflow_channel :: "uuid \<Rightarrow> string" where
  "get_workflow_channel workflow_id = ''workflow:'' @ uuid_str workflow_id @ '':updates''"

definition get_project_channel :: "uuid \<Rightarrow> string" where
  "get_project_channel project_id = ''project:'' @ uuid_str project_id @ '':events''"

definition get_broadcast_channel :: "string" where
  "get_broadcast_channel = ''broadcast:system''"

definition get_coordination_channel :: "string" where
  "get_coordination_channel = ''coordination:requests''"

definition get_result_channel :: "uuid \<Rightarrow> string" where
  "get_result_channel task_id = ''results:'' @ uuid_str task_id"

definition get_agent_pattern :: "uuid \<Rightarrow> string" where
  "get_agent_pattern agent_id = ''agent:'' @ uuid_str agent_id @ '':*''"

definition get_project_pattern :: "uuid \<Rightarrow> string" where
  "get_project_pattern project_id = ''project:'' @ uuid_str project_id @ '':*''"

definition get_workflow_pattern :: "uuid \<Rightarrow> string" where
  "get_workflow_pattern workflow_id = ''workflow:'' @ uuid_str workflow_id @ '':*''"

text \<open>
  The six naming functions that take an id, indexed by the kind of topic they name, so
  that a property can range over (kind, id) pairs. The two fixed topics take no id and
  stay constants.
\<close>

datatype entity_kind =
  AgentTasks | AgentStatus | AgentHeartbeat | WorkflowUpdates | ProjectEvents | TaskResults

fun channelFor :: "entity_kind \<Rightarrow> uuid \<Rightarrow> string" where
  "channelFor AgentTasks i = get_agent_task_channel i"
| "channelFor AgentStatus i = get_agent_status_channel i"
| "channelFor AgentHeartbeat i = get_agent_heartbeat_channel i"
| "channelFor WorkflowUpdates i = get_workflow_channel i"
| "channelFor ProjectEvents i = get_project_channel i"
| "channelFor TaskResults i = get_result_channel i"


text \<open>
  \<^verbatim>\<open>TopicRouter\<close>: one function per domain event, each delegating to a naming function.
  \<^verbatim>\<open>route_task_assignment\<close> takes the task id and does not use it.
\<close>

definition route_task_assignment :: "uuid \<Rightarrow> uuid \<Rightarrow> string" where
  "route_task_assignment agent_id task_id = get_agent_task_channel agent_id"

definition route_status_update :: "uuid \<Rightarrow> string" where
  "route_status_update agent_id = get_agent_status_channel agent_id"

definition route_workflow_update :: "uuid \<Rightarrow> string" where
  "route_workflow_update workflow_id = get_workflow_channel workflow_id"

definition route_result_delivery :: "uuid \<Rightarrow> string" where
  "route_result_delivery task_id = get_result_channel task_id"

definition route_coordination_request :: "uuid \<Rightarrow> string" where
  "route_coordination_request project_id = get_project_channel project_id"

definition route_system_event :: "string" where
  "route_system_event = get_broadcast_channel"


section \<open>Message payload and factory (message.py)\<close>

datatype MessageType =
  TASK_ASSIGNMENT | STATUS_UPDATE | COLLABORATION_REQUEST | HEARTBEAT | ERROR_REPORT
  | RESULT_DELIVERY | CAPABILITY_QUERY | CAPABILITY_RESPONSE | WORKFLOW_DIRECTIVE | CUSTOM

text \<open>The string value of each enum member.\<close>

fun message_type_value :: "MessageType \<Rightarrow> string" where
  "message_type_value TASK_ASSIGNMENT = ''task_assignment''"
| "message_type_value STATUS_UPDATE = ''status_update''"
| "message_type_value COLLABORATION_REQUEST = ''collaboration_request''"
| "message_type_value HEARTBEAT = ''heartbeat''"
| "message_type_value ERROR_REPORT = ''error_report''"
| "message_type_value RESULT_DELIVERY = ''result_delivery''"
| "message_type_value CAPABILITY_QUERY = ''capability_query''"
| "message_type_value CAPABILITY_RESPONSE = ''capability_response''"
| "message_type_value WORKFLOW_DIRECTIVE = ''workflow_directive''"
| "message_type_value CUSTOM = ''custom''"

text \<open>
  The values a \<^verbatim>\<open>Dict[str, Any]\<close> of message content holds: \<^verbatim>\<open>None\<close>, booleans,
  integers, strings, lists and dictionaries keyed by strings (floats are left out: the
  code never inspects a content value). A dictionary is a finite map, so two dictionaries are
  equal exactly when they hold the same entries, as in Python.
\<close>

datatype pyval =
  PNone | PBool bool | PInt int | PStr string | PList "pyval list"
  | PDict "(string, pyval) fmap"

type_synonym pydict = "(string, pyval) fmap"

text \<open>
  \<^verbatim>\<open>MessagePayload\<close>: the four fields of the model class. \<^verbatim>\<open>use_enum_values\<close> stores the
  message type as the enum member's string value.
\<close>

record MessagePayload =
  message_type :: string
  content :: pydict
  metadata :: pydict
  correlation_id :: "string option"

text \<open>\<^verbatim>\<open>x or []\<close> and \<^verbatim>\<open>x or {}\<close>: \<^verbatim>\<open>None\<close> and the empty container are both falsy.\<close>

definition or_empty_list :: "'a list option \<Rightarrow> 'a list" where
  "or_empty_list x = (case x of None \<Rightarrow> [] | Some xs \<Rightarrow> if xs = [] then [] else xs)"

definition or_empty_dict :: "pydict option \<Rightarrow> pydict" where
  "or_empty_dict x = (case x of None \<Rightarrow> fmempty | Some d \<Rightarrow> if d = fmempty then fmempty else d)"

text \<open>
  \<^verbatim>\<open>create_message\<close>. The content is the dictionary display
  \<^verbatim>\<open>{"sender_agent_id": ..., "recipients": [...], **content}\<close>: the two stamped entries
  first, then the caller's entries, which win on a shared key. No \<^verbatim>\<open>correlation_id\<close> is
  passed to the constructor, so the field takes its default \<^verbatim>\<open>None\<close>. The \<^verbatim>\<open>topic\<close>
  argument is accepted and not used. With arguments of the annotated types the model
  class accepts what it is given, so the factory always returns a payload.
\<close>

definition create_message ::
  "MessageType \<Rightarrow> uuid \<Rightarrow> pydict \<Rightarrow> string \<Rightarrow> uuid list option \<Rightarrow> pydict option
   \<Rightarrow> MessagePayload" where
  "create_message mtype sender_agent_id cont topic recipient_agent_ids meta =
     \<lparr> message_type = message_type_value mtype,
       content =
         fmap_of_list
           [(''sender_agent_id'', PStr (uuid_str sender_agent_id)),
            (''recipients'',
               PList (map (\<lambda>i. PStr (uuid_str i)) (or_empty_list recipient_agent_ids)))]
         ++\<^sub>f cont,
       metadata = or_empty_dict meta,
       correlation_id = None \<rparr>"


section \<open>Subscription registry (channels.py, ChannelSubscriptionManager)\<close>

text \<open>
  The registry's only attribute is \<^verbatim>\<open>subscriptions: dict[str, List[str]]\<close>. The dictionary
  is an association list in insertion order (the order \<^verbatim>\<open>items()\<close> iterates in), with
  the dictionary operations the code uses written out.
\<close>

type_synonym 'v pyodict = "(string \<times> 'v) list"

definition dict_contains :: "'v pyodict \<Rightarrow> string \<Rightarrow> bool" where
  "dict_contains d k = (k \<in> set (map fst d))"

definition dict_lookup :: "'v pyodict \<Rightarrow> string \<Rightarrow> 'v option" where
  "dict_lookup d k = map_of d k"

text \<open>\<^verbatim>\<open>d[k] = v\<close>: replaces the value in place, or appends a new key at the end.\<close>

fun dict_set :: "'v pyodict \<Rightarrow> string \<Rightarrow> 'v \<Rightarrow> 'v pyodict" where
  "dict_set [] k v = [(k, v)]"
| "dict_set ((k', v') # d) k v = (if k' = k then (k, v) # d else (k', v') # dict_set d k v)"

text \<open>
  \<^verbatim>\<open>del d[k]\<close>. The code deletes only keys it has just read from the dictionary, so the
  \<^verbatim>\<open>KeyError\<close> of a missing key does not arise.
\<close>

definition dict_del :: "'v pyodict \<Rightarrow> string \<Rightarrow> 'v pyodict" where
  "dict_del d k = filter (\<lambda>p. fst p \<noteq> k) d"

record ChannelSubscriptionManager =
  subscriptions :: "string list pyodict"

definition init_manager :: ChannelSubscriptionManager where
  "init_manager = \<lparr> subscriptions = [] \<rparr>"

text \<open>
  \<^verbatim>\<open>subscribe\<close>: ensure the key, then append the subscriber unless it is in the list. The
  read \<^verbatim>\<open>self.subscriptions[channel]\<close> follows the line that ensures the key, so its
  \<^verbatim>\<open>KeyError\<close> branch is never taken (lemma \<open>subscribe_key_present\<close>).
\<close>

definition ensure_channel :: "string list pyodict \<Rightarrow> string \<Rightarrow> string list pyodict" where
  "ensure_channel subs channel =
     (if \<not> dict_contains subs channel then dict_set subs channel [] else subs)"

definition subscribe ::
  "string \<Rightarrow> string \<Rightarrow> ChannelSubscriptionManager \<Rightarrow> ChannelSubscriptionManager" where
  "subscribe subscriber_id channel mgr =
     (let subs1 = ensure_channel (subscriptions mgr) channel
      in case dict_lookup subs1 channel of
           None \<Rightarrow> mgr\<lparr>subscriptions := subs1\<rparr>
         | Some subscribers \<Rightarrow>
             if subscriber_id \<notin> set subscribers
             then mgr\<lparr>subscriptions := dict_set subs1 channel (subscribers @ [subscriber_id])\<rparr>
             else mgr\<lparr>subscriptions := subs1\<rparr>)"

text \<open>
  \<^verbatim>\<open>unsubscribe\<close>: \<^verbatim>\<open>list.remove\<close> drops the first occurrence; the key is deleted when
  the list becomes empty.
\<close>

definition unsubscribe ::
  "string \<Rightarrow> string \<Rightarrow> ChannelSubscriptionManager \<Rightarrow> ChannelSubscriptionManager" where
  "unsubscribe subscriber_id channel mgr =
     (case dict_lookup (subscriptions mgr) channel of
        None \<Rightarrow> mgr
      | Some subscribers \<Rightarrow>
          if subscriber_id \<in> set subscribers
          then (let subscribers' = remove1 subscriber_id subscribers;
                    subs1 = dict_set (subscriptions mgr) channel subscribers'
                in if subscribers' = []
                   then mgr\<lparr>subscriptions := dict_del subs1 channel\<rparr>
                   else mgr\<lparr>subscriptions := subs1\<rparr>)
          else mgr)"

definition get_subscribers :: "ChannelSubscriptionManager \<Rightarrow> string \<Rightarrow> string list" where
  "get_subscribers mgr channel =
     (case dict_lookup (subscriptions mgr) channel of None \<Rightarrow> [] | Some subscribers \<Rightarrow> subscribers)"

definition get_subscriptions :: "ChannelSubscriptionManager \<Rightarrow> string \<Rightarrow> string list" where
  "get_subscriptions mgr subscriber_id =
     map fst (filter (\<lambda>(channel, subscribers). subscriber_id \<in> set subscribers)
                (subscriptions mgr))"

definition is_subscribed :: "ChannelSubscriptionManager \<Rightarrow> string \<Rightarrow> string \<Rightarrow> bool" where
  "is_subscribed mgr subscriber_id channel = (subscriber_id \<in> set (get_subscribers mgr channel))"

text \<open>
  \<^verbatim>\<open>clear_subscriber\<close>. The first loop walks the items, removes the subscriber (first
  occurrence) from each list that holds it and collects the channels whose list became
  empty; the second loop deletes the collected keys.
\<close>

fun clear_loop :: "string \<Rightarrow> string list pyodict \<Rightarrow> string list pyodict \<times> string list" where
  "clear_loop subscriber_id [] = ([], [])"
| "clear_loop subscriber_id ((channel, subscribers) # rest) =
     (let (rest', channels_to_clean) = clear_loop subscriber_id rest
      in if subscriber_id \<in> set subscribers
         then (let subscribers' = remove1 subscriber_id subscribers
               in ((channel, subscribers') # rest',
                   if subscribers' = [] then channel # channels_to_clean else channels_to_clean))
         else ((channel, subscribers) # rest', channels_to_clean))"

definition clear_subscriber ::
  "string \<Rightarrow> ChannelSubscriptionManager \<Rightarrow> ChannelSubscriptionManager" where
  "clear_subscriber subscriber_id mgr =
     (let (subs1, channels_to_clean) = clear_loop subscriber_id (subscriptions mgr)
      in mgr\<lparr>subscriptions := foldl dict_del subs1 channels_to_clean\<rparr>)"

text \<open>
  A caller's use of a registry is a sequence of calls of its three mutators; the states a
  registry can be in are the results of running such sequences from the empty registry.
\<close>

datatype registry_call =
  CallSubscribe string string | CallUnsubscribe string string | CallClearSubscriber string

fun run_call :: "registry_call \<Rightarrow> ChannelSubscriptionManager \<Rightarrow> ChannelSubscriptionManager" where
  "run_call (CallSubscribe subscriber_id channel) mgr = subscribe subscriber_id channel mgr"
| "run_call (CallUnsubscribe subscriber_id channel) mgr = unsubscribe subscriber_id channel mgr"
| "run_call (CallClearSubscriber subscriber_id) mgr = clear_subscriber subscriber_id mgr"

fun run_calls :: "registry_call list \<Rightarrow> ChannelSubscriptionManager \<Rightarrow> ChannelSubscriptionManager" where
  "run_calls [] mgr = mgr"
| "run_calls (call # rest) mgr = run_calls rest (run_call call mgr)"

text \<open>Every channel key present maps to a non-empty subscriber list.\<close>

definition no_empty_channel :: "ChannelSubscriptionManager \<Rightarrow> bool" where
  "no_empty_channel mgr = list_all (\<lambda>(channel, subscribers). subscribers \<noteq> []) (subscriptions mgr)"

text \<open>Keys are unique (a dictionary) and no subscriber is listed twice on a channel.\<close>

definition well_formed :: "ChannelSubscriptionManager \<Rightarrow> bool" where
  "well_formed mgr =
     (distinct (map fst (subscriptions mgr))
      \<and> list_all (\<lambda>(channel, subscribers). distinct subscribers) (subscriptions mgr))"


section \<open>Broker (message_queue.py, MessageQueue)\<close>

text \<open>
  An exception is its class name and its text. \<open>not_connected\<close> is the
  \<^verbatim>\<open>RuntimeError\<close> every data operation raises when \<^verbatim>\<open>self.redis_client\<close> is unset.
\<close>

datatype exn = Exn (exn_class: string) (exn_text: string)

definition not_connected :: exn where
  "not_connected = Exn ''RuntimeError'' ''Not connected to Redis. Call connect() first.''"

text \<open>
  What the broker does to the outside world is kept as a trace: the calls it makes on the
  Redis client and on a pub/sub session, and the lines it logs (one constructor per
  logging call of the source, holding the interpolated values).
\<close>

datatype redis_call =
  FromUrl string | Ping | ClientClose
  | Publish string string | Setex string int string | Get string | Delete string
  | PubsubChannels | PubsubNumsub string
  | NewPubSub | Subscribe string | PSubscribe string
  | Unsubscribe string | PUnsubscribe string | PubSubClose

datatype level = DEBUG | INFO | WARNING | ERROR

datatype log_msg =
  ConnectedTo string | FailedToConnect exn | DisconnectedFrom
  | PublishedTo string int | FailedToPublish string exn
  | SubscribedToTopic string | UnsubscribedFromTopic string
  | SubscribedToPattern string | UnsubscribedFromPattern string
  | FailedToDecode string string
  | StoredWithTTL string int | FailedToStore exn | FailedToRetrieve exn | FailedToDelete exn
  | FailedToListChannels exn | FailedToGetSubscriberCount exn

datatype event = Call redis_call | Log level log_msg

type_synonym trace = "event list"

datatype client = Client string

datatype pubsub_session = PubSubSession

text \<open>
  The Redis library and the JSON codec are outside the repository. They enter as a
  parameter: for each call, what it answers (a value, or the exception it raises) given
  the trace so far, so that a transport may answer the same call differently over time.
\<close>

record transport =
  from_url_reply :: "trace \<Rightarrow> string \<Rightarrow> exn + client"
  ping_reply :: "trace \<Rightarrow> exn option"
  client_close_reply :: "trace \<Rightarrow> exn option"
  publish_reply :: "trace \<Rightarrow> string \<Rightarrow> string \<Rightarrow> exn + int"
  setex_reply :: "trace \<Rightarrow> string \<Rightarrow> int \<Rightarrow> string \<Rightarrow> exn option"
  get_reply :: "trace \<Rightarrow> string \<Rightarrow> exn + string option"
  delete_reply :: "trace \<Rightarrow> string \<Rightarrow> exn + int"
  pubsub_channels_reply :: "trace \<Rightarrow> exn + string list"
  pubsub_numsub_reply :: "trace \<Rightarrow> string \<Rightarrow> exn + (string \<times> int) list"
  subscribe_reply :: "trace \<Rightarrow> string \<Rightarrow> exn option"
  psubscribe_reply :: "trace \<Rightarrow> string \<Rightarrow> exn option"
  unsubscribe_reply :: "trace \<Rightarrow> string \<Rightarrow> exn option"
  punsubscribe_reply :: "trace \<Rightarrow> string \<Rightarrow> exn option"
  pubsub_close_reply :: "trace \<Rightarrow> exn option"
  json_dumps :: "pyval \<Rightarrow> exn + string"
  json_loads :: "string \<Rightarrow> exn + pyval"

record MessageQueue =
  redis_url :: string
  redis_client :: "client option"
  pubsub :: "pubsub_session option"

definition init_queue :: "string \<Rightarrow> MessageQueue" where
  "init_queue url = \<lparr> redis_url = url, redis_client = None, pubsub = None \<rparr>"

text \<open>
  \<^verbatim>\<open>connect\<close>. The client is assigned to \<^verbatim>\<open>self.redis_client\<close> as soon as
  \<^verbatim>\<open>from_url\<close> returns; the ping comes after. Either failure is logged and re-raised.
\<close>

definition connect :: "transport \<Rightarrow> MessageQueue \<Rightarrow> trace \<Rightarrow> exn option \<times> MessageQueue \<times> trace" where
  "connect T mq tr =
     (let tr1 = tr @ [Call (FromUrl (redis_url mq))]
      in case from_url_reply T tr (redis_url mq) of
           Inl e \<Rightarrow> (Some e, mq, tr1 @ [Log ERROR (FailedToConnect e)])
         | Inr c \<Rightarrow>
             (let mq1 = mq\<lparr>redis_client := Some c\<rparr>;
                  tr2 = tr1 @ [Call Ping]
              in case ping_reply T tr1 of
                   Some e \<Rightarrow> (Some e, mq1, tr2 @ [Log ERROR (FailedToConnect e)])
                 | None \<Rightarrow> (None, mq1, tr2 @ [Log INFO (ConnectedTo (redis_url mq))])))"

text \<open>
  \<^verbatim>\<open>disconnect\<close>: closes what is set and logs. It assigns to no attribute, so the broker
  it returns is the broker it was given: \<^verbatim>\<open>self.redis_client\<close> keeps the closed client.
\<close>

definition disconnect ::
  "transport \<Rightarrow> MessageQueue \<Rightarrow> trace \<Rightarrow> exn option \<times> MessageQueue \<times> trace" where
  "disconnect T mq tr =
     (let r1 = (case pubsub mq of
                  None \<Rightarrow> (None, tr)
                | Some p \<Rightarrow> (pubsub_close_reply T tr, tr @ [Call PubSubClose]))
      in case fst r1 of
           Some e \<Rightarrow> (Some e, mq, snd r1)
         | None \<Rightarrow>
             (let r2 = (case redis_client mq of
                          None \<Rightarrow> (None, snd r1)
                        | Some c \<Rightarrow> (client_close_reply T (snd r1), snd r1 @ [Call ClientClose]))
              in case fst r2 of
                   Some e \<Rightarrow> (Some e, mq, snd r2)
                 | None \<Rightarrow> (None, mq, snd r2 @ [Log INFO DisconnectedFrom])))"

definition publish :: "transport \<Rightarrow> MessageQueue \<Rightarrow> trace \<Rightarrow> string \<Rightarrow> pyval \<Rightarrow> (exn + int) \<times> trace" where
  "publish T mq tr topic message =
     (case redis_client mq of
        None \<Rightarrow> (Inl not_connected, tr)
      | Some c \<Rightarrow>
          (case json_dumps T message of
             Inl e \<Rightarrow> (Inl e, tr @ [Log ERROR (FailedToPublish topic e)])
           | Inr message_json \<Rightarrow>
               (let tr1 = tr @ [Call (Publish topic message_json)]
                in case publish_reply T tr topic message_json of
                     Inl e \<Rightarrow> (Inl e, tr1 @ [Log ERROR (FailedToPublish topic e)])
                   | Inr subscribers_count \<Rightarrow>
                       (Inr subscribers_count,
                        tr1 @ [Log DEBUG (PublishedTo topic subscribers_count)]))))"

text \<open>
  A message as \<^verbatim>\<open>pubsub.listen()\<close> hands it over: the dictionary with the keys
  \<^verbatim>\<open>type\<close>, \<^verbatim>\<open>pattern\<close>, \<^verbatim>\<open>channel\<close> and \<^verbatim>\<open>data\<close>.
\<close>

record raw_message =
  msg_type :: string
  msg_pattern :: "string option"
  msg_channel :: string
  msg_data :: string

text \<open>
  The body of \<^verbatim>\<open>async for message in pubsub.listen()\<close> in \<^verbatim>\<open>subscribe\<close>, run over the
  messages the session delivers. It returns the items yielded to the consumer, the
  exception that ended the loop (if one did) and the trace. Only a
  \<^verbatim>\<open>json.JSONDecodeError\<close> is caught; it is logged and the loop goes on.
\<close>

fun subscribe_loop ::
  "transport \<Rightarrow> string \<Rightarrow> raw_message list \<Rightarrow> trace \<Rightarrow> pyval list \<times> exn option \<times> trace" where
  "subscribe_loop T topic [] tr = ([], None, tr)"
| "subscribe_loop T topic (message # rest) tr =
     (if msg_type message = ''message''
      then (case json_loads T (msg_data message) of
              Inr data \<Rightarrow>
                (let (yielded, raised, tr') = subscribe_loop T topic rest tr
                 in (data # yielded, raised, tr'))
            | Inl e \<Rightarrow>
                if exn_class e = ''JSONDecodeError''
                then subscribe_loop T topic rest
                       (tr @ [Log WARNING (FailedToDecode topic (msg_data message))])
                else ([], Some e, tr))
      else subscribe_loop T topic rest tr)"

fun psubscribe_loop ::
  "transport \<Rightarrow> raw_message list \<Rightarrow> trace \<Rightarrow> (string \<times> pyval) list \<times> exn option \<times> trace" where
  "psubscribe_loop T [] tr = ([], None, tr)"
| "psubscribe_loop T (message # rest) tr =
     (if msg_type message = ''pmessage''
      then (case json_loads T (msg_data message) of
              Inr data \<Rightarrow>
                (let (yielded, raised, tr') = psubscribe_loop T rest tr
                 in ((msg_channel message, data) # yielded, raised, tr'))
            | Inl e \<Rightarrow>
                if exn_class e = ''JSONDecodeError''
                then psubscribe_loop T rest
                       (tr @ [Log WARNING (FailedToDecode (msg_channel message) (msg_data message))])
                else ([], Some e, tr))
      else psubscribe_loop T rest tr)"

text \<open>
  The \<^verbatim>\<open>finally\<close> blocks: unsubscribe, close, log. An exception raised there replaces
  the pending one; otherwise the pending one goes on to the caller.
\<close>

definition finally_unsubscribe ::
  "transport \<Rightarrow> string \<Rightarrow> 'a list \<Rightarrow> exn option \<Rightarrow> trace \<Rightarrow> 'a list \<times> exn option \<times> trace" where
  "finally_unsubscribe T topic yielded pending tr =
     (let tr1 = tr @ [Call (Unsubscribe topic)]
      in case unsubscribe_reply T tr topic of
           Some e \<Rightarrow> (yielded, Some e, tr1)
         | None \<Rightarrow>
             (let tr2 = tr1 @ [Call PubSubClose]
              in case pubsub_close_reply T tr1 of
                   Some e \<Rightarrow> (yielded, Some e, tr2)
                 | None \<Rightarrow> (yielded, pending, tr2 @ [Log INFO (UnsubscribedFromTopic topic)])))"

definition finally_punsubscribe ::
  "transport \<Rightarrow> string \<Rightarrow> 'a list \<Rightarrow> exn option \<Rightarrow> trace \<Rightarrow> 'a list \<times> exn option \<times> trace" where
  "finally_punsubscribe T pattern yielded pending tr =
     (let tr1 = tr @ [Call (PUnsubscribe pattern)]
      in case punsubscribe_reply T tr pattern of
           Some e \<Rightarrow> (yielded, Some e, tr1)
         | None \<Rightarrow>
             (let tr2 = tr1 @ [Call PubSubClose]
              in case pubsub_close_reply T tr1 of
                   Some e \<Rightarrow> (yielded, Some e, tr2)
                 | None \<Rightarrow> (yielded, pending, tr2 @ [Log INFO (UnsubscribedFromPattern pattern)])))"

text \<open>
  \<^verbatim>\<open>subscribe\<close> and \<^verbatim>\<open>psubscribe\<close>, as the run of the generator's body: \<open>incoming\<close> is
  what \<^verbatim>\<open>listen()\<close> delivers while the consumer iterates, \<open>ending\<close> the exception with
  which \<^verbatim>\<open>listen()\<close> itself stops, if it does. The result is the list of items yielded,
  the exception the stream ends with (if any) and the trace.
\<close>

definition queue_subscribe ::
  "transport \<Rightarrow> MessageQueue \<Rightarrow> trace \<Rightarrow> string \<Rightarrow> raw_message list \<Rightarrow> exn option
   \<Rightarrow> pyval list \<times> exn option \<times> trace" where
  "queue_subscribe T mq tr topic incoming ending =
     (case redis_client mq of
        None \<Rightarrow> ([], Some not_connected, tr)
      | Some c \<Rightarrow>
          (let tr1 = tr @ [Call NewPubSub];
               tr2 = tr1 @ [Call (Subscribe topic)]
           in case subscribe_reply T tr1 topic of
                Some e \<Rightarrow> finally_unsubscribe T topic [] (Some e) tr2
              | None \<Rightarrow>
                  (let (yielded, raised, tr3) =
                         subscribe_loop T topic incoming (tr2 @ [Log INFO (SubscribedToTopic topic)])
                   in finally_unsubscribe T topic yielded
                        (case raised of Some e \<Rightarrow> Some e | None \<Rightarrow> ending) tr3)))"

definition psubscribe ::
  "transport \<Rightarrow> MessageQueue \<Rightarrow> trace \<Rightarrow> string \<Rightarrow> raw_message list \<Rightarrow> exn option
   \<Rightarrow> (string \<times> pyval) list \<times> exn option \<times> trace" where
  "psubscribe T mq tr pattern incoming ending =
     (case redis_client mq of
        None \<Rightarrow> ([], Some not_connected, tr)
      | Some c \<Rightarrow>
          (let tr1 = tr @ [Call NewPubSub];
               tr2 = tr1 @ [Call (PSubscribe pattern)]
           in case psubscribe_reply T tr1 pattern of
                Some e \<Rightarrow> finally_punsubscribe T pattern [] (Some e) tr2
              | None \<Rightarrow>
                  (let (yielded, raised, tr3) =
                         psubscribe_loop T incoming (tr2 @ [Log INFO (SubscribedToPattern pattern)])
                   in finally_punsubscribe T pattern yielded
                        (case raised of Some e \<Rightarrow> Some e | None \<Rightarrow> ending) tr3)))"

text \<open>The TTL store. \<^verbatim>\<open>set_message_expiry\<close> logs and re-raises a failure.\<close>

definition set_message_expiry ::
  "transport \<Rightarrow> MessageQueue \<Rightarrow> trace \<Rightarrow> string \<Rightarrow> pyval \<Rightarrow> int \<Rightarrow> exn option \<times> trace" where
  "set_message_expiry T mq tr key val ttl_seconds =
     (case redis_client mq of
        None \<Rightarrow> (Some not_connected, tr)
      | Some c \<Rightarrow>
          (case json_dumps T val of
             Inl e \<Rightarrow> (Some e, tr @ [Log ERROR (FailedToStore e)])
           | Inr message_json \<Rightarrow>
               (let tr1 = tr @ [Call (Setex key ttl_seconds message_json)]
                in case setex_reply T tr key ttl_seconds message_json of
                     Some e \<Rightarrow> (Some e, tr1 @ [Log ERROR (FailedToStore e)])
                   | None \<Rightarrow> (None, tr1 @ [Log DEBUG (StoredWithTTL key ttl_seconds)]))))"

text \<open>
  \<^verbatim>\<open>get_message\<close> and \<^verbatim>\<open>delete_message\<close> catch every exception of their \<^verbatim>\<open>try\<close> block,
  log it and return \<^verbatim>\<open>None\<close> and \<^verbatim>\<open>False\<close>. \<^verbatim>\<open>if value:\<close> is false for a missing
  key and for the empty string.
\<close>

definition get_message ::
  "transport \<Rightarrow> MessageQueue \<Rightarrow> trace \<Rightarrow> string \<Rightarrow> (exn + pyval) \<times> trace" where
  "get_message T mq tr key =
     (case redis_client mq of
        None \<Rightarrow> (Inl not_connected, tr)
      | Some c \<Rightarrow>
          (let tr1 = tr @ [Call (Get key)]
           in case get_reply T tr key of
                Inl e \<Rightarrow> (Inr PNone, tr1 @ [Log ERROR (FailedToRetrieve e)])
              | Inr None \<Rightarrow> (Inr PNone, tr1)
              | Inr (Some v) \<Rightarrow>
                  if v \<noteq> []
                  then (case json_loads T v of
                          Inl e \<Rightarrow> (Inr PNone, tr1 @ [Log ERROR (FailedToRetrieve e)])
                        | Inr data \<Rightarrow> (Inr data, tr1))
                  else (Inr PNone, tr1)))"

definition delete_message ::
  "transport \<Rightarrow> MessageQueue \<Rightarrow> trace \<Rightarrow> string \<Rightarrow> (exn + bool) \<times> trace" where
  "delete_message T mq tr key =
     (case redis_client mq of
        None \<Rightarrow> (Inl not_connected, tr)
      | Some c \<Rightarrow>
          (let tr1 = tr @ [Call (Delete key)]
           in case delete_reply T tr key of
                Inl e \<Rightarrow> (Inr False, tr1 @ [Log ERROR (FailedToDelete e)])
              | Inr n \<Rightarrow> (Inr (n > 0), tr1)))"

definition list_channels ::
  "transport \<Rightarrow> MessageQueue \<Rightarrow> trace \<Rightarrow> (exn + string list) \<times> trace" where
  "list_channels T mq tr =
     (case redis_client mq of
        None \<Rightarrow> (Inl not_connected, tr)
      | Some c \<Rightarrow>
          (let tr1 = tr @ [Call PubsubChannels]
           in case pubsub_channels_reply T tr of
                Inl e \<Rightarrow> (Inr [], tr1 @ [Log ERROR (FailedToListChannels e)])
              | Inr channels_info \<Rightarrow>
                  (Inr (if channels_info \<noteq> [] then channels_info else []), tr1)))"

text \<open>
  \<^verbatim>\<open>get_channel_subscribers\<close>. The client answers \<^verbatim>\<open>pubsub_numsub\<close> with a list of
  (channel, count) pairs. The code reads a non-empty answer with
  \<^verbatim>\<open>result.get(channel, 0)\<close>; a list has no \<^verbatim>\<open>get\<close>, so the read raises
  \<^verbatim>\<open>AttributeError\<close> inside the \<^verbatim>\<open>try\<close> block, which is caught, logged and turned
  into 0 like every other failure there. An empty answer gives 0 directly.
\<close>

definition list_has_no_get :: exn where
  "list_has_no_get =
     Exn ''AttributeError''
       ([CHR 0x27] @ ''list'' @ [CHR 0x27] @ '' object has no attribute ''
        @ [CHR 0x27] @ ''get'' @ [CHR 0x27])"

definition get_channel_subscribers ::
  "transport \<Rightarrow> MessageQueue \<Rightarrow> trace \<Rightarrow> string \<Rightarrow> (exn + int) \<times> trace" where
  "get_channel_subscribers T mq tr channel =
     (case redis_client mq of
        None \<Rightarrow> (Inl not_connected, tr)
      | Some c \<Rightarrow>
          (let tr1 = tr @ [Call (PubsubNumsub channel)]
           in case pubsub_numsub_reply T tr channel of
                Inl e \<Rightarrow> (Inr 0, tr1 @ [Log ERROR (FailedToGetSubscriberCount e)])
              | Inr result \<Rightarrow>
                  if result \<noteq> []
                  then (Inr 0, tr1 @ [Log ERROR (FailedToGetSubscriberCount list_has_no_get)])
                  else (Inr 0, tr1)))"

text \<open>The calls a trace holds, without the log lines.\<close>

fun calls :: "trace \<Rightarrow> redis_call list" where
  "calls [] = []"
| "calls (Call c # tr) = c # calls tr"
| "calls (Log l m # tr) = calls tr"

text \<open>
  What \<^verbatim>\<open>listen()\<close> delivers for a payload published on a channel: to a session
  subscribed to the channel, and to a session subscribed to a pattern matching it.
\<close>

definition topic_message :: "string \<Rightarrow> string \<Rightarrow> raw_message" where
  "topic_message channel payload =
     \<lparr> msg_type = ''message'', msg_pattern = None, msg_channel = channel, msg_data = payload \<rparr>"


text \<open>
  Concrete transports to run the broker on. \<open>steady_transport\<close> answers every call
  normally; its codec knows one document, the empty object. \<open>unreachable_transport\<close>
  hands out a client but refuses every call made on it, as a server that is down does.
  \<open>garbled_transport\<close> stores a value under every key that is not a JSON document.
\<close>

definition local_url :: string where
  "local_url = ''redis://localhost:6379''"

definition refused :: exn where
  "refused = Exn ''ConnectionError'' ''Connection refused''"

definition steady_transport :: transport where
  "steady_transport =
     \<lparr> from_url_reply = (\<lambda>tr url. Inr (Client url)),
       ping_reply = (\<lambda>tr. None),
       client_close_reply = (\<lambda>tr. None),
       publish_reply = (\<lambda>tr topic payload. Inr 0),
       setex_reply = (\<lambda>tr key ttl payload. None),
       get_reply = (\<lambda>tr key. Inr None),
       delete_reply = (\<lambda>tr key. Inr 0),
       pubsub_channels_reply = (\<lambda>tr. Inr []),
       pubsub_numsub_reply = (\<lambda>tr channel. Inr [(channel, 0)]),
       subscribe_reply = (\<lambda>tr topic. None),
       psubscribe_reply = (\<lambda>tr pattern. None),
       unsubscribe_reply = (\<lambda>tr topic. None),
       punsubscribe_reply = (\<lambda>tr pattern. None),
       pubsub_close_reply = (\<lambda>tr. None),
       json_dumps = (\<lambda>v. if v = PDict fmempty then Inr ''{}''
                          else Inl (Exn ''TypeError'' ''not serializable'')),
       json_loads = (\<lambda>s. if s = ''{}'' then Inr (PDict fmempty)
                          else Inl (Exn ''JSONDecodeError'' ''Expecting value'')) \<rparr>"

definition unreachable_transport :: transport where
  "unreachable_transport =
     steady_transport
       \<lparr> ping_reply := (\<lambda>tr. Some refused),
         publish_reply := (\<lambda>tr topic payload. Inl refused),
         setex_reply := (\<lambda>tr key ttl payload. Some refused),
         get_reply := (\<lambda>tr key. Inl refused),
         delete_reply := (\<lambda>tr key. Inl refused),
         pubsub_channels_reply := (\<lambda>tr. Inl refused),
         pubsub_numsub_reply := (\<lambda>tr channel. Inl refused),
         subscribe_reply := (\<lambda>tr topic. Some refused),
         psubscribe_reply := (\<lambda>tr pattern. Some refused) \<rparr>"

definition garbled_transport :: transport where
  "garbled_transport = steady_transport \<lparr> get_reply := (\<lambda>tr key. Inr (Some ''{oops'')) \<rparr>"



definition connected_queue :: MessageQueue where
  "connected_queue = (init_queue local_url)\<lparr>redis_client := Some (Client local_url)\<rparr>"


section \<open>Properties of channel naming\<close>

lemma hexdigit_inj: "a < 16 \<Longrightarrow> b < 16 \<Longrightarrow> hexdigit a = hexdigit b \<Longrightarrow> a = b"
  unfolding hexdigit_def
  by (rule iffD1[OF nth_eq_iff_index_eq]) simp_all

lemma length_hex_digits [simp]: "length (hex_digits k n) = k"
  by (induction k arbitrary: n) simp_all

lemma hex_digits_inj:
  "hex_digits k n = hex_digits k m \<Longrightarrow> n < 16 ^ k \<Longrightarrow> m < 16 ^ k \<Longrightarrow> n = m"
proof (induction k arbitrary: n m)
  case 0
  then show ?case by simp
next
  case (Suc k)
  from Suc.prems(1) have tl: "hex_digits k (n div 16) = hex_digits k (m div 16)"
    and hd: "hexdigit (n mod 16) = hexdigit (m mod 16)"
    by simp_all
  have "n div 16 < 16 ^ k" "m div 16 < 16 ^ k"
    using Suc.prems(2,3) by (simp_all add: less_mult_imp_div_less mult.commute)
  with tl Suc.IH have "n div 16 = m div 16" by blast
  moreover from hd have "n mod 16 = m mod 16"
    by (intro hexdigit_inj) simp_all
  ultimately show ?case
    by (metis div_mult_mod_eq)
qed

lemma length_uuid_hex [simp]: "length (uuid_hex u) = 32"
  by (simp add: uuid_hex_def)

lemma uuid_hex_inj: "uuid_hex a = uuid_hex b \<Longrightarrow> a = b"
proof -
  assume eq: "uuid_hex a = uuid_hex b"
  have bound: "unat w < 16 ^ 32" for w :: uuid
    using unsigned_less [of w, where 'a = nat] by simp
  from eq have "unat a = unat b"
    unfolding uuid_hex_def by (rule hex_digits_inj) (rule bound)+
  then show "a = b" by (simp add: word_unat_eq_iff)
qed

lemma hex_regroup:
  "length h = 32 \<Longrightarrow>
   take 8 h @ take 4 (drop 8 h) @ take 4 (drop 12 h) @ take 4 (drop 16 h) @ drop 20 h = h"
proof -
  have a: "take 4 (drop 16 h) @ drop 20 h = drop 16 h"
    using append_take_drop_id [of 4 "drop 16 h"] by simp
  have b: "take 4 (drop 12 h) @ drop 16 h = drop 12 h"
    using append_take_drop_id [of 4 "drop 12 h"] by simp
  have c: "take 4 (drop 8 h) @ drop 12 h = drop 8 h"
    using append_take_drop_id [of 4 "drop 8 h"] by simp
  show ?thesis by (simp add: a b c)
qed

text \<open>Distinct UUIDs have distinct string forms: the dashes sit at fixed positions.\<close>

lemma uuid_str_inj: "uuid_str a = uuid_str b \<Longrightarrow> a = b"
proof -
  assume eq: "uuid_str a = uuid_str b"
  let ?h = "uuid_hex a" and ?g = "uuid_hex b"
  from eq have "take 8 ?h = take 8 ?g \<and> take 4 (drop 8 ?h) = take 4 (drop 8 ?g)
      \<and> take 4 (drop 12 ?h) = take 4 (drop 12 ?g) \<and> take 4 (drop 16 ?h) = take 4 (drop 16 ?g)
      \<and> drop 20 ?h = drop 20 ?g"
    by (simp add: uuid_str_def Let_def)
  then have "take 8 ?h @ take 4 (drop 8 ?h) @ take 4 (drop 12 ?h) @ take 4 (drop 16 ?h) @ drop 20 ?h
      = take 8 ?g @ take 4 (drop 8 ?g) @ take 4 (drop 12 ?g) @ take 4 (drop 16 ?g) @ drop 20 ?g"
    by simp
  then have "?h = ?g" by (simp add: hex_regroup)
  then show "a = b" by (rule uuid_hex_inj)
qed

text \<open>A worked rendering, digit by digit.\<close>

lemma hex_digits_numeral:
  "hex_digits (numeral k) n = hex_digits (pred_numeral k) (n div 16) @ [hexdigit (n mod 16)]"
proof -
  have "numeral k = Suc (pred_numeral k)" by (rule numeral_eq_Suc)
  then show ?thesis by (simp only: hex_digits.simps)
qed

lemma hexdigit_values:
  "hexdigit 0 = CHR ''0''" "hexdigit (Suc 0) = CHR ''1''" "hexdigit 2 = CHR ''2''"
  "hexdigit 3 = CHR ''3''" "hexdigit 4 = CHR ''4''" "hexdigit 5 = CHR ''5''"
  "hexdigit 6 = CHR ''6''" "hexdigit 7 = CHR ''7''" "hexdigit 8 = CHR ''8''"
  "hexdigit 9 = CHR ''9''" "hexdigit 10 = CHR ''a''" "hexdigit 11 = CHR ''b''"
  "hexdigit 12 = CHR ''c''" "hexdigit 13 = CHR ''d''" "hexdigit 14 = CHR ''e''"
  "hexdigit 15 = CHR ''f''"
  unfolding hexdigit_def by simp_all

lemma uuid_hex_example:
  "uuid_hex 0x123e4567e89b12d3a456426614174000 = ''123e4567e89b12d3a456426614174000''"
proof -
  have "unat (0x123e4567e89b12d3a456426614174000 :: uuid) = 0x123e4567e89b12d3a456426614174000"
    by simp
  moreover have "hex_digits 32 0x123e4567e89b12d3a456426614174000
      = ''123e4567e89b12d3a456426614174000''"
    by (simp add: hex_digits_numeral hexdigit_values)
  ultimately show ?thesis by (simp only: uuid_hex_def)
qed

lemma uuid_str_example:
  "uuid_str 0x123e4567e89b12d3a456426614174000 = ''123e4567-e89b-12d3-a456-426614174000''"
  by (simp add: uuid_str_def uuid_hex_example)

lemma agent_task_channel_example:
  "route_task_assignment 0x123e4567e89b12d3a456426614174000 t
     = ''agent:123e4567-e89b-12d3-a456-426614174000:tasks''"
  by (simp add: route_task_assignment_def get_agent_task_channel_def uuid_str_example)

text \<open>
  The three agent topics share the prefix and differ in the last segment; whatever the
  ids render to, the strings differ near their ends.
\<close>

lemma tasks_status: "a @ '':tasks'' \<noteq> b @ '':status''"
proof
  assume "a @ '':tasks'' = b @ '':status''"
  then have "rev (a @ '':tasks'') = rev (b @ '':status'')" by (rule arg_cong)
  then show False by simp
qed

lemma tasks_heartbeat: "a @ '':tasks'' \<noteq> b @ '':heartbeat''"
proof
  assume "a @ '':tasks'' = b @ '':heartbeat''"
  then have "rev (a @ '':tasks'') = rev (b @ '':heartbeat'')" by (rule arg_cong)
  then show False by simp
qed

lemma status_heartbeat: "a @ '':status'' \<noteq> b @ '':heartbeat''"
proof
  assume "a @ '':status'' = b @ '':heartbeat''"
  then have "rev (a @ '':status'') = rev (b @ '':heartbeat'')" by (rule arg_cong)
  then show False by simp
qed

lemmas channel_defs = get_agent_task_channel_def get_agent_status_channel_def
  get_agent_heartbeat_channel_def get_workflow_channel_def get_project_channel_def
  get_result_channel_def get_broadcast_channel_def get_coordination_channel_def

lemma channelFor_inj:
  "(channelFor k1 i1 = channelFor k2 i2) = (k1 = k2 \<and> i1 = i2)"
  using tasks_status tasks_heartbeat status_heartbeat
    tasks_status [symmetric] tasks_heartbeat [symmetric] status_heartbeat [symmetric]
  by (cases k1; cases k2) (auto simp: channel_defs dest: uuid_str_inj)

text \<open>
  C1. Channel naming is deterministic and injective. Determinism is built in: each
  naming function is a function of its id alone. Two (kind, id) pairs name the same topic
  exactly when the kinds and the ids are both equal, so distinct ids of one kind give
  distinct topics and distinct kinds never share a topic, equal ids or not. The two fixed
  topics, broadcast and coordination, differ from each other and from every topic that
  carries an id.
\<close>

theorem channel_naming_injective:
  "((channelFor k1 i1 = channelFor k2 i2) = (k1 = k2 \<and> i1 = i2))
   \<and> channelFor k i \<noteq> get_broadcast_channel
   \<and> channelFor k i \<noteq> get_coordination_channel
   \<and> get_broadcast_channel \<noteq> get_coordination_channel"
proof (intro conjI)
  show "(channelFor k1 i1 = channelFor k2 i2) = (k1 = k2 \<and> i1 = i2)"
    by (rule channelFor_inj)
  show "channelFor k i \<noteq> get_broadcast_channel"
    by (cases k) (simp_all add: channel_defs)
  show "channelFor k i \<noteq> get_coordination_channel"
    by (cases k) (simp_all add: channel_defs)
  show "get_broadcast_channel \<noteq> get_coordination_channel"
    by (simp add: channel_defs)
qed


section \<open>Properties of the message factory\<close>

text \<open>
  C2 (as amended). The payload \<open>create_message\<close> returns for an absent recipient list is
  equal to the payload it returns for an explicit empty list, whatever the other
  arguments: \<^verbatim>\<open>recipient_agent_ids or []\<close> maps both to the empty list, and the
  \<^verbatim>\<open>recipients\<close> entry of the content is that empty list unless the caller's content
  brings its own entry under the key. The payload does not tell broadcast from an empty
  recipient list.
\<close>

theorem absent_and_empty_recipients_same_payload:
  "create_message mt s c t None md = create_message mt s c t (Some []) md
   \<and> fmlookup (content (create_message mt s c t None md)) ''recipients''
       = (case fmlookup c ''recipients'' of None \<Rightarrow> Some (PList []) | Some v \<Rightarrow> Some v)"
  by (auto simp: create_message_def or_empty_list_def fmlookup_dom_iff split: option.splits)

text \<open>
  The claim as first stated, that the two payloads can be told apart, fails already for a
  heartbeat with empty content.
\<close>

theorem absent_and_empty_recipients_example:
  "create_message HEARTBEAT 0 fmempty ''agent:x:heartbeat'' None None
   = create_message HEARTBEAT 0 fmempty ''agent:x:heartbeat'' (Some []) None"
  by (simp add: create_message_def or_empty_list_def)

text \<open>
  C9. The factory never assigns a correlation id: for every message type, sender, content,
  topic, recipient list and metadata, the payload \<open>create_message\<close> returns has
  \<open>correlation_id = None\<close>.
\<close>

theorem factory_leaves_correlation_id_absent:
  "correlation_id (create_message mt s c t r md) = None"
  by (simp add: create_message_def)

text \<open>
  C10. The payload does not depend on the topic argument: two calls that differ only in
  the topic return equal payloads. The payload has the four fields of \<open>MessagePayload\<close>
  and no topic among them; the factory writes no \<^verbatim>\<open>topic\<close> entry into the content or
  the metadata either, where such an entry is the caller's own or absent.
\<close>

theorem payload_independent_of_topic:
  "create_message mt s c t1 r md = create_message mt s c t2 r md
   \<and> fmlookup (content (create_message mt s c t1 r md)) ''topic'' = fmlookup c ''topic''
   \<and> fmlookup (metadata (create_message mt s c t1 r md)) ''topic''
       = (case md of None \<Rightarrow> None | Some m \<Rightarrow> fmlookup m ''topic'')"
  by (auto simp: create_message_def or_empty_dict_def fmlookup_dom_iff split: option.splits)


section \<open>Properties of the subscription registry\<close>

lemma dict_contains_lookup: "dict_contains d k = (dict_lookup d k \<noteq> None)"
  by (simp add: dict_contains_def dict_lookup_def map_of_eq_None_iff)

lemma lookup_dict_set_same [simp]: "dict_lookup (dict_set d k v) k = Some v"
  by (induction d) (auto simp: dict_lookup_def)

lemma lookup_dict_set_other [simp]: "k' \<noteq> k \<Longrightarrow> dict_lookup (dict_set d k v) k' = dict_lookup d k'"
  by (induction d) (auto simp: dict_lookup_def)

lemma dict_set_twice [simp]: "dict_set (dict_set d k v) k w = dict_set d k w"
  by (induction d) auto

lemma dict_set_same: "dict_lookup d k = Some v \<Longrightarrow> dict_set d k v = d"
  by (induction d) (auto simp: dict_lookup_def)

lemma keys_dict_set:
  "map fst (dict_set d k v) = (if k \<in> set (map fst d) then map fst d else map fst d @ [k])"
  by (induction d k v rule: dict_set.induct) (auto simp: rev_image_eqI)

lemma set_dict_set: "set (dict_set d k v) \<subseteq> insert (k, v) (set d)"
  by (induction d k v rule: dict_set.induct) auto

lemma list_all_dict_set: "list_all P d \<Longrightarrow> P (k, v) \<Longrightarrow> list_all P (dict_set d k v)"
  by (induction d) auto

lemma lookup_in_set: "dict_lookup d k = Some v \<Longrightarrow> (k, v) \<in> set d"
  by (simp add: dict_lookup_def map_of_SomeD)

lemma subscribe_subscriptions:
  "subscriptions (subscribe s c m) =
     (case dict_lookup (subscriptions m) c of
        None \<Rightarrow> dict_set (subscriptions m) c [s]
      | Some l \<Rightarrow> if s \<in> set l then subscriptions m else dict_set (subscriptions m) c (l @ [s]))"
  by (auto simp: subscribe_def ensure_channel_def dict_contains_lookup Let_def
           split: option.splits)

lemma subscribe_eq:
  "subscribe s c m = m\<lparr>subscriptions := subscriptions (subscribe s c m)\<rparr>"
  by (auto simp: subscribe_def Let_def split: option.splits)

lemma subscribe_lookup:
  "\<exists>l. dict_lookup (subscriptions (subscribe s c m)) c = Some l \<and> s \<in> set l"
  by (auto simp: subscribe_subscriptions split: option.splits)

lemma subscribe_idem: "subscribe s c (subscribe s c m) = subscribe s c m"
proof -
  obtain l where l: "dict_lookup (subscriptions (subscribe s c m)) c = Some l" "s \<in> set l"
    using subscribe_lookup by blast
  have "subscriptions (subscribe s c (subscribe s c m)) = subscriptions (subscribe s c m)"
    by (simp add: subscribe_subscriptions [of s c "subscribe s c m"] l)
  then show ?thesis
    using subscribe_eq [of s c "subscribe s c m"] by simp
qed


lemma unsubscribe_subscriptions:
  "subscriptions (unsubscribe s c m) =
     (case dict_lookup (subscriptions m) c of
        None \<Rightarrow> subscriptions m
      | Some l \<Rightarrow>
          if s \<in> set l
          then (if remove1 s l = [] then dict_del (dict_set (subscriptions m) c []) c
                else dict_set (subscriptions m) c (remove1 s l))
          else subscriptions m)"
  by (auto simp: unsubscribe_def Let_def split: option.splits)

lemma set_dict_del_set: "set (dict_del (dict_set d k v) k) \<subseteq> set d"
  using set_dict_set [of d k v] by (auto simp: dict_del_def)

lemma keys_dict_del: "map fst (dict_del d k) = filter (\<lambda>x. x \<noteq> k) (map fst d)"
  by (simp add: dict_del_def filter_map comp_def)

lemma not_contains_dict_del: "\<not> dict_contains (dict_del d k) k"
  by (simp add: dict_contains_def keys_dict_del)

lemma list_all_subset: "list_all P d \<Longrightarrow> set d' \<subseteq> set d \<Longrightarrow> list_all P d'"
  by (auto simp: list_all_iff)

lemma list_all_dict_del: "list_all P d \<Longrightarrow> list_all P (dict_del d k)"
  by (simp add: dict_del_def list_all_iff)

lemma foldl_dict_del: "foldl dict_del d ks = filter (\<lambda>p. fst p \<notin> set ks) d"
proof (induction ks arbitrary: d)
  case Nil
  then show ?case by simp
next
  case (Cons k ks)
  have "foldl dict_del d (k # ks) = foldl dict_del (dict_del d k) ks" by simp
  also have "\<dots> = filter (\<lambda>p. fst p \<notin> set ks) (dict_del d k)" by (rule Cons.IH)
  also have "\<dots> = filter (\<lambda>p. fst p \<notin> set (k # ks)) d"
    by (auto simp: dict_del_def intro: filter_cong)
  finally show ?case .
qed

lemma clear_loop_keys: "map fst (fst (clear_loop s d)) = map fst d"
  by (induction s d rule: clear_loop.induct) (auto simp: Let_def split: prod.splits)

lemma clear_loop_cleaned:
  "list_all (\<lambda>(c, l). l \<noteq> []) d \<Longrightarrow> (c, []) \<in> set (fst (clear_loop s d))
     \<Longrightarrow> c \<in> set (snd (clear_loop s d))"
  by (induction s d rule: clear_loop.induct) (auto simp: Let_def split: prod.splits if_splits)

lemma clear_subscriptions:
  "subscriptions (clear_subscriber s m) =
     filter (\<lambda>p. fst p \<notin> set (snd (clear_loop s (subscriptions m))))
       (fst (clear_loop s (subscriptions m)))"
  by (simp add: clear_subscriber_def foldl_dict_del split: prod.splits)

lemma no_empty_subscribe: "no_empty_channel m \<Longrightarrow> no_empty_channel (subscribe s c m)"
  by (auto simp: no_empty_channel_def subscribe_subscriptions intro: list_all_dict_set
           split: option.splits)

lemma no_empty_unsubscribe: "no_empty_channel m \<Longrightarrow> no_empty_channel (unsubscribe s c m)"
  unfolding no_empty_channel_def unsubscribe_subscriptions
  by (auto intro: list_all_dict_set list_all_subset [OF _ set_dict_del_set] split: option.splits)

lemma no_empty_clear: "no_empty_channel m \<Longrightarrow> no_empty_channel (clear_subscriber s m)"
proof -
  assume pre: "no_empty_channel m"
  have "l \<noteq> []" if "(c, l) \<in> set (subscriptions (clear_subscriber s m))" for c l
  proof
    assume "l = []"
    with that have in1: "(c, []) \<in> set (fst (clear_loop s (subscriptions m)))"
      and out: "c \<notin> set (snd (clear_loop s (subscriptions m)))"
      by (auto simp: clear_subscriptions)
    from pre in1 have "c \<in> set (snd (clear_loop s (subscriptions m)))"
      unfolding no_empty_channel_def by (rule clear_loop_cleaned)
    with out show False by contradiction
  qed
  then show ?thesis
    by (auto simp: no_empty_channel_def list_all_iff)
qed

lemma unsubscribe_last:
  "get_subscribers m c = [s] \<Longrightarrow> \<not> dict_contains (subscriptions (unsubscribe s c m)) c"
  by (auto simp: get_subscribers_def unsubscribe_subscriptions not_contains_dict_del
           split: option.splits)


lemma clear_loop_sole:
  "(c, [s]) \<in> set d \<Longrightarrow> c \<in> set (snd (clear_loop s d))"
  by (induction s d rule: clear_loop.induct) (auto simp: Let_def split: prod.splits)

lemma clear_sole:
  "get_subscribers m c = [s] \<Longrightarrow> \<not> dict_contains (subscriptions (clear_subscriber s m)) c"
proof -
  assume "get_subscribers m c = [s]"
  then have "(c, [s]) \<in> set (subscriptions m)"
    by (auto simp: get_subscribers_def dest: lookup_in_set split: option.splits)
  then have "c \<in> set (snd (clear_loop s (subscriptions m)))"
    by (rule clear_loop_sole)
  then show ?thesis
    by (auto simp: dict_contains_def clear_subscriptions)
qed

lemma clear_loop_distinct_lists:
  "list_all (\<lambda>(c, l). distinct l) d \<Longrightarrow> list_all (\<lambda>(c, l). distinct l) (fst (clear_loop s d))"
  by (induction s d rule: clear_loop.induct) (auto simp: Let_def split: prod.splits)

lemma well_formed_init: "well_formed init_manager"
  by (simp add: well_formed_def init_manager_def)

lemma well_formed_subscribe: "well_formed m \<Longrightarrow> well_formed (subscribe s c m)"
proof -
  assume wf: "well_formed m"
  let ?d = "subscriptions m"
  from wf have keys: "distinct (map fst ?d)" and lists: "list_all (\<lambda>(c, l). distinct l) ?d"
    by (simp_all add: well_formed_def)
  have k: "distinct (map fst (dict_set ?d c v))" for v
    using keys by (simp add: keys_dict_set)
  have l: "list_all (\<lambda>(c, l). distinct l) (dict_set ?d c v)" if "distinct v" for v
    using lists that by (intro list_all_dict_set) simp_all
  have old: "distinct l0" if "dict_lookup ?d c = Some l0" for l0
    using lookup_in_set [OF that] lists by (auto simp: list_all_iff)
  show ?thesis
    unfolding well_formed_def subscribe_subscriptions
    using keys lists k l old by (auto split: option.splits)
qed

lemma well_formed_unsubscribe: "well_formed m \<Longrightarrow> well_formed (unsubscribe s c m)"
proof -
  assume wf: "well_formed m"
  let ?d = "subscriptions m"
  from wf have keys: "distinct (map fst ?d)" and lists: "list_all (\<lambda>(c, l). distinct l) ?d"
    by (simp_all add: well_formed_def)
  have k: "distinct (map fst (dict_set ?d c v))" for v
    using keys by (simp add: keys_dict_set)
  have l: "list_all (\<lambda>(c, l). distinct l) (dict_set ?d c v)" if "distinct v" for v
    using lists that by (intro list_all_dict_set) simp_all
  have old: "distinct l0" if "dict_lookup ?d c = Some l0" for l0
    using lookup_in_set [OF that] lists by (auto simp: list_all_iff)
  have kd: "distinct (map fst (dict_del (dict_set ?d c v) c))" for v
    using k [of v] by (simp add: keys_dict_del)
  have ld: "list_all (\<lambda>(c, l). distinct l) (dict_del (dict_set ?d c []) c)"
    by (rule list_all_dict_del) (simp add: l)
  show ?thesis
    unfolding well_formed_def unsubscribe_subscriptions
    using keys lists k l old kd ld by (auto split: option.splits)
qed

lemma well_formed_clear: "well_formed m \<Longrightarrow> well_formed (clear_subscriber s m)"
proof -
  assume wf: "well_formed m"
  let ?d = "subscriptions m"
  from wf have keys: "distinct (map fst ?d)" and lists: "list_all (\<lambda>(c, l). distinct l) ?d"
    by (simp_all add: well_formed_def)
  have "distinct (map fst (fst (clear_loop s ?d)))"
    using keys by (simp add: clear_loop_keys)
  then have k: "distinct (map fst (subscriptions (clear_subscriber s m)))"
    unfolding clear_subscriptions by (rule distinct_map_filter)
  have "list_all (\<lambda>(c, l). distinct l) (fst (clear_loop s ?d))"
    using lists by (rule clear_loop_distinct_lists)
  then have l: "list_all (\<lambda>(c, l). distinct l) (subscriptions (clear_subscriber s m))"
    unfolding clear_subscriptions by (simp add: list_all_iff)
  from k l show ?thesis by (simp add: well_formed_def)
qed

lemma well_formed_run_call: "well_formed m \<Longrightarrow> well_formed (run_call call m)"
  by (cases call) (simp_all add: well_formed_subscribe well_formed_unsubscribe well_formed_clear)

lemma well_formed_run_calls: "well_formed m \<Longrightarrow> well_formed (run_calls cs m)"
  by (induction cs arbitrary: m) (simp_all add: well_formed_run_call)

lemma no_empty_init: "no_empty_channel init_manager"
  by (simp add: no_empty_channel_def init_manager_def)

lemma no_empty_run_calls: "no_empty_channel m \<Longrightarrow> no_empty_channel (run_calls cs m)"
proof (induction cs arbitrary: m)
  case Nil
  then show ?case by simp
next
  case (Cons call cs)
  from Cons.prems have "no_empty_channel (run_call call m)"
    by (cases call) (simp_all add: no_empty_subscribe no_empty_unsubscribe no_empty_clear)
  then show ?case by (simp add: Cons.IH)
qed

lemma count_list_distinct: "distinct xs \<Longrightarrow> x \<in> set xs \<Longrightarrow> count_list xs x = 1"
  by (induction xs) auto

lemma subscribe_once:
  "well_formed m \<Longrightarrow> count_list (get_subscribers (subscribe s c m) c) s = 1"
proof -
  assume wf: "well_formed m"
  have old: "distinct l0" if "dict_lookup (subscriptions m) c = Some l0" for l0
    using lookup_in_set [OF that] wf by (auto simp: well_formed_def list_all_iff)
  show ?thesis
    unfolding get_subscribers_def subscribe_subscriptions
    using old by (auto simp: count_list_distinct split: option.splits)
qed

lemma subscribe_key_present: "dict_lookup (ensure_channel d c) c \<noteq> None"
  by (simp add: ensure_channel_def dict_contains_lookup)

text \<open>
  C7. Registry subscribe is idempotent: subscribing twice leaves the registry in the state
  one subscribe leaves it in, for every subscriber, channel and starting state; and in
  every state the registry reaches from the empty one, whatever sequence of calls led
  there, the subscriber then appears exactly once in the channel's subscriber list.
\<close>

theorem subscribe_idempotent:
  "subscribe s c (subscribe s c m) = subscribe s c m
   \<and> count_list (get_subscribers (subscribe s c (run_calls cs init_manager)) c) s = 1"
  using subscribe_idem subscribe_once well_formed_run_calls well_formed_init by blast

text \<open>The registry of the module's own example, subscribed to a second time.\<close>

lemma subscribe_twice_example:
  "subscribe ''agent-002'' ''agent:tasks''
     (run_calls [CallSubscribe ''agent-001'' ''agent:tasks'',
                 CallSubscribe ''agent-002'' ''agent:tasks''] init_manager)
   = \<lparr> subscriptions = [(''agent:tasks'', [''agent-001'', ''agent-002''])] \<rparr>"
  by (simp add: subscribe_def ensure_channel_def dict_contains_def dict_lookup_def
        init_manager_def)

text \<open>
  C8. Every registry operation preserves the invariant that each channel key present maps
  to a non-empty subscriber list: the empty registry has it, and \<open>subscribe\<close>,
  \<open>unsubscribe\<close> and \<open>clear_subscriber\<close> keep it. When a channel's only subscriber is
  removed, by \<open>unsubscribe\<close> or by \<open>clear_subscriber\<close>, the channel key is gone.
\<close>

theorem registry_channels_never_empty:
  "no_empty_channel init_manager
   \<and> (no_empty_channel m \<longrightarrow>
        no_empty_channel (subscribe s c m)
        \<and> no_empty_channel (unsubscribe s c m)
        \<and> no_empty_channel (clear_subscriber s m))
   \<and> (get_subscribers m c = [s] \<longrightarrow>
        \<not> dict_contains (subscriptions (unsubscribe s c m)) c
        \<and> \<not> dict_contains (subscriptions (clear_subscriber s m)) c)"
  using no_empty_init no_empty_subscribe no_empty_unsubscribe no_empty_clear
    unsubscribe_last clear_sole
  by blast

theorem registry_channels_never_empty_witness:
  "no_empty_channel (subscribe ''agent-001'' ''agent:tasks'' init_manager)
   \<and> get_subscribers (subscribe ''agent-001'' ''agent:tasks'' init_manager) ''agent:tasks''
       = [''agent-001'']
   \<and> no_empty_channel
        (subscribe ''agent-002'' ''agent:status''
           (subscribe ''agent-001'' ''agent:tasks'' init_manager))
   \<and> unsubscribe ''agent-001'' ''agent:tasks''
        (subscribe ''agent-001'' ''agent:tasks'' init_manager) = init_manager
   \<and> clear_subscriber ''agent-001''
        (subscribe ''agent-001'' ''agent:tasks'' init_manager) = init_manager
   \<and> \<not> dict_contains
          (subscriptions
             (unsubscribe ''agent-001'' ''agent:tasks''
                (subscribe ''agent-001'' ''agent:tasks'' init_manager))) ''agent:tasks''
   \<and> \<not> dict_contains
          (subscriptions
             (clear_subscriber ''agent-001''
                (subscribe ''agent-001'' ''agent:tasks'' init_manager))) ''agent:tasks''"
proof -
  let ?m = "subscribe ''agent-001'' ''agent:tasks'' init_manager"
  have v: "?m = \<lparr> subscriptions = [(''agent:tasks'', [''agent-001''])] \<rparr>"
    by (simp add: subscribe_def ensure_channel_def dict_contains_def dict_lookup_def
          init_manager_def)
  have n: "no_empty_channel ?m"
    unfolding v by (simp add: no_empty_channel_def)
  have g: "get_subscribers ?m ''agent:tasks'' = [''agent-001'']"
    unfolding v by (simp add: get_subscribers_def dict_lookup_def)
  have u: "unsubscribe ''agent-001'' ''agent:tasks'' ?m = init_manager"
    unfolding v by (simp add: unsubscribe_def dict_lookup_def dict_del_def init_manager_def)
  have k: "clear_subscriber ''agent-001'' ?m = init_manager"
    unfolding v by (simp add: clear_subscriber_def dict_del_def init_manager_def)
  from n g u k
    registry_channels_never_empty [of ?m "''agent-002''" "''agent:status''"]
    registry_channels_never_empty [of ?m "''agent-001''" "''agent:tasks''"]
  show ?thesis by simp
qed


section \<open>Properties of the broker\<close>

lemma calls_append [simp]: "calls (tr @ tr') = calls tr @ calls tr'"
  by (induction tr rule: calls.induct) simp_all

lemmas broker_defs = publish_def queue_subscribe_def psubscribe_def set_message_expiry_def
  get_message_def delete_message_def list_channels_def get_channel_subscribers_def

text \<open>
  While no client is set (the broker was never connected, or \<^verbatim>\<open>from_url\<close> raised),
  every data operation fails with the not-connected error and does nothing else: the trace
  is returned as it was, so no call reaches the transport and nothing is logged. For the
  two streams the error is the first and only thing the stream produces.
\<close>

lemma no_client_operations_fail_fast:
  "redis_client mq = None \<Longrightarrow>
     publish T mq tr topic message = (Inl not_connected, tr)
   \<and> queue_subscribe T mq tr topic incoming ending = ([], Some not_connected, tr)
   \<and> psubscribe T mq tr pattern incoming ending = ([], Some not_connected, tr)
   \<and> set_message_expiry T mq tr key val ttl_seconds = (Some not_connected, tr)
   \<and> get_message T mq tr key = (Inl not_connected, tr)
   \<and> delete_message T mq tr key = (Inl not_connected, tr)
   \<and> list_channels T mq tr = (Inl not_connected, tr)
   \<and> get_channel_subscribers T mq tr channel = (Inl not_connected, tr)"
  by (simp add: broker_defs)

lemma never_connected_example:
  "publish steady_transport (init_queue local_url) [] ''agent:tasks'' (PDict fmempty)
       = (Inl not_connected, [])
   \<and> get_message steady_transport (init_queue local_url) [] ''k'' = (Inl not_connected, [])"
  by (simp add: publish_def get_message_def init_queue_def)

lemma disconnect_keeps_client:
  "fst (snd (disconnect T mq tr)) = mq"
  by (simp add: disconnect_def Let_def split: option.splits)

text \<open>
  What a failing \<open>connect\<close> leaves behind. When \<^verbatim>\<open>from_url\<close> raises, the error goes to
  the caller and the broker state is unchanged. When the ping raises, the error goes to
  the caller as well, but the client assigned before the ping stays in place.
\<close>

lemma connect_from_url_failure:
  "from_url_reply T tr (redis_url mq) = Inl e \<Longrightarrow>
     connect T mq tr = (Some e, mq, tr @ [Call (FromUrl (redis_url mq)), Log ERROR (FailedToConnect e)])"
  by (simp add: connect_def)

lemma connect_client_after:
  "redis_client (fst (snd (connect T mq tr))) =
     (case from_url_reply T tr (redis_url mq) of Inl e \<Rightarrow> redis_client mq | Inr c \<Rightarrow> Some c)"
  by (simp add: connect_def Let_def split: sum.splits option.splits)

lemma connect_ping_failure:
  "from_url_reply T tr (redis_url mq) = Inr c \<Longrightarrow>
   ping_reply T (tr @ [Call (FromUrl (redis_url mq))]) = Some e \<Longrightarrow>
     connect T mq tr =
       (Some e, mq\<lparr>redis_client := Some c\<rparr>,
        tr @ [Call (FromUrl (redis_url mq)), Call Ping, Log ERROR (FailedToConnect e)])"
  by (simp add: connect_def)

lemma publish_after_failed_ping:
  assumes "from_url_reply T tr (redis_url mq) = Inr c"
    and "ping_reply T (tr @ [Call (FromUrl (redis_url mq))]) = Some e"
    and "connect T mq tr = (r, mq', tr')"
    and "json_dumps T message = Inr message_json"
  shows "r = Some e \<and> redis_client mq' = Some c
    \<and> calls (snd (publish T mq' tr' topic message)) = calls tr' @ [Publish topic message_json]"
proof -
  from assms(1-3) have r: "r = Some e" and q: "mq' = mq\<lparr>redis_client := Some c\<rparr>"
    by (simp_all add: connect_ping_failure)
  from q assms(4) have "calls (snd (publish T mq' tr' topic message))
      = calls tr' @ [Publish topic message_json]"
    by (simp add: publish_def Let_def split: sum.splits)
  with r q show ?thesis by simp
qed

text \<open>
  C3. After a \<open>connect\<close> that fails, the broker should still be disconnected and its data
  operations should fail with the not-connected error. The run below is a \<open>connect\<close>
  whose ping is refused: the error is surfaced, but the broker comes out with its client
  set, and the operations that follow go to the transport. \<open>publish\<close> makes the publish
  call and reports the transport's error, not the not-connected error; \<open>get_message\<close>
  makes the get call and returns \<^verbatim>\<open>None\<close>.
\<close>

theorem failed_ping_leaves_client_set:
  "connect unreachable_transport (init_queue local_url) []
     = (Some refused, connected_queue,
        [Call (FromUrl local_url), Call Ping, Log ERROR (FailedToConnect refused)])
   \<and> publish unreachable_transport connected_queue
        [Call (FromUrl local_url), Call Ping, Log ERROR (FailedToConnect refused)]
        ''agent:tasks'' (PDict fmempty)
     = (Inl refused,
        [Call (FromUrl local_url), Call Ping, Log ERROR (FailedToConnect refused),
         Call (Publish ''agent:tasks'' ''{}''), Log ERROR (FailedToPublish ''agent:tasks'' refused)])
   \<and> get_message unreachable_transport connected_queue
        [Call (FromUrl local_url), Call Ping, Log ERROR (FailedToConnect refused)] ''k''
     = (Inr PNone,
        [Call (FromUrl local_url), Call Ping, Log ERROR (FailedToConnect refused),
         Call (Get ''k''), Log ERROR (FailedToRetrieve refused)])
   \<and> refused \<noteq> not_connected"
  by (simp add: connect_def publish_def get_message_def unreachable_transport_def
        steady_transport_def init_queue_def connected_queue_def refused_def not_connected_def)

text \<open>
  C4. Every data operation invoked on a disconnected broker should fail with the
  not-connected error and leave the transport alone. The guard of each operation reads
  \<^verbatim>\<open>self.redis_client\<close>, and once a client has been assigned nothing unsets it: not
  \<open>disconnect\<close>, not a refused ping. On a broker that was connected and then disconnected,
  \<open>publish\<close> makes the publish call and returns its count, \<open>delete_message\<close> makes the
  delete call, and a subscription opens a session and yields what arrives. On a broker
  whose ping was refused, \<open>list_channels\<close> makes its call and returns the empty list. None
  of them raises the not-connected error.
\<close>

theorem operations_after_disconnect_reach_transport:
  "connect steady_transport (init_queue local_url) []
     = (None, connected_queue,
        [Call (FromUrl local_url), Call Ping, Log INFO (ConnectedTo local_url)])
   \<and> disconnect steady_transport connected_queue
        [Call (FromUrl local_url), Call Ping, Log INFO (ConnectedTo local_url)]
     = (None, connected_queue,
        [Call (FromUrl local_url), Call Ping, Log INFO (ConnectedTo local_url),
         Call ClientClose, Log INFO DisconnectedFrom])
   \<and> publish steady_transport connected_queue
        [Call (FromUrl local_url), Call Ping, Log INFO (ConnectedTo local_url),
         Call ClientClose, Log INFO DisconnectedFrom]
        ''agent:tasks'' (PDict fmempty)
     = (Inr 0,
        [Call (FromUrl local_url), Call Ping, Log INFO (ConnectedTo local_url),
         Call ClientClose, Log INFO DisconnectedFrom,
         Call (Publish ''agent:tasks'' ''{}''), Log DEBUG (PublishedTo ''agent:tasks'' 0)])
   \<and> delete_message steady_transport connected_queue
        [Call (FromUrl local_url), Call Ping, Log INFO (ConnectedTo local_url),
         Call ClientClose, Log INFO DisconnectedFrom] ''k''
     = (Inr False,
        [Call (FromUrl local_url), Call Ping, Log INFO (ConnectedTo local_url),
         Call ClientClose, Log INFO DisconnectedFrom, Call (Delete ''k'')])
   \<and> queue_subscribe steady_transport connected_queue
        [Call (FromUrl local_url), Call Ping, Log INFO (ConnectedTo local_url),
         Call ClientClose, Log INFO DisconnectedFrom]
        ''agent:tasks'' [topic_message ''agent:tasks'' ''{}''] None
     = ([PDict fmempty], None,
        [Call (FromUrl local_url), Call Ping, Log INFO (ConnectedTo local_url),
         Call ClientClose, Log INFO DisconnectedFrom,
         Call NewPubSub, Call (Subscribe ''agent:tasks''),
         Log INFO (SubscribedToTopic ''agent:tasks''),
         Call (Unsubscribe ''agent:tasks''), Call PubSubClose,
         Log INFO (UnsubscribedFromTopic ''agent:tasks'')])
   \<and> list_channels unreachable_transport connected_queue
        [Call (FromUrl local_url), Call Ping, Log ERROR (FailedToConnect refused)]
     = (Inr [],
        [Call (FromUrl local_url), Call Ping, Log ERROR (FailedToConnect refused),
         Call PubsubChannels, Log ERROR (FailedToListChannels refused)])"
  by (simp add: connect_def disconnect_def publish_def delete_message_def queue_subscribe_def
        finally_unsubscribe_def list_channels_def topic_message_def
        steady_transport_def unreachable_transport_def init_queue_def connected_queue_def)

text \<open>
  C5 (as amended). On a connected broker, a failed \<open>set_message_expiry\<close> surfaces the
  failure to the caller as an error, whether the value cannot be serialised or the store
  refuses it. A failed \<open>get_message\<close>, whether the store refuses the read or the stored
  value does not decode, returns \<^verbatim>\<open>None\<close>, and a failed \<open>delete_message\<close> returns
  \<^verbatim>\<open>False\<close>: the failure is logged and not raised. None of the three retries: each makes
  at most one call on the store.
\<close>

theorem ttl_store_failures:
  "redis_client mq = Some c \<Longrightarrow>
     (json_dumps T val = Inl e \<longrightarrow>
        set_message_expiry T mq tr key val ttl_seconds
          = (Some e, tr @ [Log ERROR (FailedToStore e)]))
   \<and> (json_dumps T val = Inr message_json \<and> setex_reply T tr key ttl_seconds message_json = Some e \<longrightarrow>
        set_message_expiry T mq tr key val ttl_seconds
          = (Some e, tr @ [Call (Setex key ttl_seconds message_json), Log ERROR (FailedToStore e)]))
   \<and> (get_reply T tr key = Inl e \<longrightarrow>
        get_message T mq tr key
          = (Inr PNone, tr @ [Call (Get key), Log ERROR (FailedToRetrieve e)]))
   \<and> (get_reply T tr key = Inr (Some stored) \<and> stored \<noteq> [] \<and> json_loads T stored = Inl e \<longrightarrow>
        get_message T mq tr key
          = (Inr PNone, tr @ [Call (Get key), Log ERROR (FailedToRetrieve e)]))
   \<and> (delete_reply T tr key = Inl e \<longrightarrow>
        delete_message T mq tr key
          = (Inr False, tr @ [Call (Delete key), Log ERROR (FailedToDelete e)]))
   \<and> calls (snd (set_message_expiry T mq tr key val ttl_seconds))
       = calls tr @ (case json_dumps T val of Inl x \<Rightarrow> []
                     | Inr message_json \<Rightarrow> [Setex key ttl_seconds message_json])
   \<and> calls (snd (get_message T mq tr key)) = calls tr @ [Get key]
   \<and> calls (snd (delete_message T mq tr key)) = calls tr @ [Delete key]"
  by (auto simp: set_message_expiry_def get_message_def delete_message_def Let_def
           split: sum.splits option.splits)

theorem ttl_store_failures_witness:
  "redis_client connected_queue = Some (Client local_url)
   \<and> json_dumps unreachable_transport (PDict fmempty) = Inr ''{}''
   \<and> setex_reply unreachable_transport [] ''k'' 60 ''{}'' = Some refused
   \<and> set_message_expiry unreachable_transport connected_queue [] ''k'' (PDict fmempty) 60
       = (Some refused, [Call (Setex ''k'' 60 ''{}''), Log ERROR (FailedToStore refused)])
   \<and> json_dumps unreachable_transport PNone = Inl (Exn ''TypeError'' ''not serializable'')
   \<and> set_message_expiry unreachable_transport connected_queue [] ''k'' PNone 60
       = (Some (Exn ''TypeError'' ''not serializable''),
          [Log ERROR (FailedToStore (Exn ''TypeError'' ''not serializable''))])
   \<and> get_reply unreachable_transport [] ''k'' = Inl refused
   \<and> get_message unreachable_transport connected_queue [] ''k''
       = (Inr PNone, [Call (Get ''k''), Log ERROR (FailedToRetrieve refused)])
   \<and> get_reply garbled_transport [] ''k'' = Inr (Some ''{oops'')
   \<and> json_loads garbled_transport ''{oops'' = Inl (Exn ''JSONDecodeError'' ''Expecting value'')
   \<and> get_message garbled_transport connected_queue [] ''k''
       = (Inr PNone,
          [Call (Get ''k''), Log ERROR (FailedToRetrieve (Exn ''JSONDecodeError'' ''Expecting value''))])
   \<and> delete_reply unreachable_transport [] ''k'' = Inl refused
   \<and> delete_message unreachable_transport connected_queue [] ''k''
       = (Inr False, [Call (Delete ''k''), Log ERROR (FailedToDelete refused)])"
proof -
  have c: "redis_client connected_queue = Some (Client local_url)"
    by (simp add: connected_queue_def)
  have d: "json_dumps unreachable_transport (PDict fmempty) = Inr ''{}''"
    and n: "json_dumps unreachable_transport PNone = Inl (Exn ''TypeError'' ''not serializable'')"
    and s: "setex_reply unreachable_transport [] ''k'' 60 ''{}'' = Some refused"
    and g: "get_reply unreachable_transport [] ''k'' = Inl refused"
    and r: "delete_reply unreachable_transport [] ''k'' = Inl refused"
    by (simp_all add: unreachable_transport_def steady_transport_def)
  have o: "get_reply garbled_transport [] ''k'' = Inr (Some ''{oops'')"
    and l: "json_loads garbled_transport ''{oops'' = Inl (Exn ''JSONDecodeError'' ''Expecting value'')"
    by (simp_all add: garbled_transport_def steady_transport_def)
  from ttl_store_failures [OF c, where T = unreachable_transport and val = "PDict fmempty"
      and tr = "[]" and key = "''k''" and ttl_seconds = 60 and message_json = "''{}''"
      and e = refused]
    ttl_store_failures [OF c, where T = unreachable_transport and val = PNone
      and tr = "[]" and key = "''k''" and ttl_seconds = 60
      and e = "Exn ''TypeError'' ''not serializable''"]
    ttl_store_failures [OF c, where T = garbled_transport and tr = "[]" and key = "''k''"
      and stored = "''{oops''" and e = "Exn ''JSONDecodeError'' ''Expecting value''"]
    c d n s g r o l
  show ?thesis by simp
qed

text \<open>
  The claim as first stated, that every failed TTL-store operation surfaces an error,
  fails for reads and deletes: with the store refusing both calls, \<open>get_message\<close> answers
  as for a missing key and \<open>delete_message\<close> as for a key that did not exist.
\<close>

theorem ttl_store_failure_example:
  "get_reply unreachable_transport [] ''k'' = Inl refused
   \<and> get_message unreachable_transport connected_queue [] ''k''
       = (Inr PNone, [Call (Get ''k''), Log ERROR (FailedToRetrieve refused)])
   \<and> delete_reply unreachable_transport [] ''k'' = Inl refused
   \<and> delete_message unreachable_transport connected_queue [] ''k''
       = (Inr False, [Call (Delete ''k''), Log ERROR (FailedToDelete refused)])"
  by (simp add: get_message_def delete_message_def unreachable_transport_def
        steady_transport_def connected_queue_def init_queue_def)

lemma fst_finally_unsubscribe [simp]: "fst (finally_unsubscribe T topic ys p tr) = ys"
  by (simp add: finally_unsubscribe_def Let_def split: option.splits)

lemma fst_finally_punsubscribe [simp]: "fst (finally_punsubscribe T pattern ys p tr) = ys"
  by (simp add: finally_punsubscribe_def Let_def split: option.splits)











end
